theory Spec2Isabelle
  imports Complex_Main "HOL-Library.Word" "HOL-Library.Log_Nat"
begin

section \<open>Data of the star webhook relay (src/main.go)\<close>

text \<open>
  The program is one Go file: \<^verbatim>\<open>main\<close> reads its configuration and builds a
  router with three routes, wrapped in the two middlewares \<^verbatim>\<open>tracing\<close> and
  \<^verbatim>\<open>logging\<close>. Strings are Go strings (byte sequences), \<^verbatim>\<open>int64\<close> is a 64-bit
  word read with \<open>sint\<close>.
\<close>

type_synonym int64 = "64 word"

text \<open>
  \<^verbatim>\<open>http.Header\<close>: a key with its list of values. \<^verbatim>\<open>Get\<close> returns the first value
  of the key and the empty string when there is none; \<^verbatim>\<open>Set\<close> replaces the values
  of the key by one value. Go canonicalises the spelling of a key on both sides, so a
  lookup does not depend on letter case; here a header is identified by the spelling
  the source uses for it.
\<close>

type_synonym http_header = "string \<rightharpoonup> string list"

definition Header_Get :: "http_header \<Rightarrow> string \<Rightarrow> string" where
  "Header_Get h k = (case h k of None \<Rightarrow> [] | Some [] \<Rightarrow> [] | Some (v # vs) \<Rightarrow> v)"

definition Header_Set :: "http_header \<Rightarrow> string \<Rightarrow> string \<Rightarrow> http_header" where
  "Header_Set h k v = h(k \<mapsto> [v])"

text \<open>
  The parts of \<^verbatim>\<open>*http.Request\<close> the program reads. \<open>Context_requestID\<close> is the
  value stored in the request's context under \<^verbatim>\<open>requestIDKey\<close>, \<open>None\<close> when
  nothing is stored there.
\<close>

record request =
  Method :: string
  URL_Path :: string
  Header :: http_header
  Body :: string
  RemoteAddr :: string
  Context_requestID :: "string option"

text \<open>
  Error values. \<^verbatim>\<open>hook.Parse\<close> of the webhooks package reports its failures
  through the package's exported error variables; the handler compares the error it
  gets with \<^verbatim>\<open>webhook.ErrEventNotFound\<close> by identity. Every other error value
  (a JSON decoding error, an error of the Telegram client, of the network, of the
  operating system) is \<open>OtherError\<close> with its text.
\<close>

datatype go_error =
    ErrEventNotSpecifiedToParse
  | ErrInvalidHTTPMethod
  | ErrMissingGithubEventHeader
  | ErrMissingHubSignatureHeader
  | ErrEventNotFound
  | ErrParsingPayload
  | ErrHMACVerificationFailed
  | OtherError string

text \<open>
  \<^verbatim>\<open>webhook.WatchPayload\<close>, with the three fields the handler reads:
  \<^verbatim>\<open>Repository.Name\<close>, \<^verbatim>\<open>Repository.StargazersCount\<close> and \<^verbatim>\<open>Sender.HTMLURL\<close>.
\<close>

record WatchPayload =
  Repository_Name :: string
  Repository_StargazersCount :: int64
  Sender_HTMLURL :: string

text \<open>
  The \<^verbatim>\<open>interface{}\<close> that \<^verbatim>\<open>hook.Parse\<close> returns: \<^verbatim>\<open>nil\<close>, a
  \<^verbatim>\<open>WatchPayload\<close>, or a value of any other dynamic type.
\<close>

datatype payload = NilPayload | Watch WatchPayload | OtherPayload

text \<open>\<^verbatim>\<open>tgbotapi.MessageConfig\<close>, with the fields the handler sets.\<close>

record MessageConfig =
  ChatID :: int64
  Text :: string
  ParseMode :: string

definition NewMessage :: "int64 \<Rightarrow> string \<Rightarrow> MessageConfig" where
  "NewMessage chatID txt = \<lparr>ChatID = chatID, Text = txt, ParseMode = []\<rparr>"

text \<open>
  Log entries of logrus: a level, the fields attached with \<^verbatim>\<open>WithField(s)\<close> and the
  message. A message is a text, or a text followed by the text of an error value
  (\<^verbatim>\<open>Error(err)\<close>, \<^verbatim>\<open>Printf("... %v", err)\<close>).
\<close>

datatype Level = PanicLevel | FatalLevel | ErrorLevel | WarnLevel | InfoLevel | DebugLevel

datatype field = FString string | FInt int | FHeader http_header

datatype message = Msg string | MsgErr string go_error

record entry =
  entry_Level :: Level
  entry_Data :: "string \<rightharpoonup> field"
  entry_Message :: message

text \<open>
  What a handler can change: the response being written (status line, headers, body),
  the log, and the messages handed to \<^verbatim>\<open>bot.Send\<close>. \<open>Status\<close> is \<open>None\<close>
  until the status line is written; net/http writes status 200 with the first write
  of the body, and at the end of a handler that wrote nothing.
\<close>

record server_state =
  Status :: "nat option"
  ResponseHeader :: http_header
  ResponseBody :: string
  Log :: "entry list"
  Sent :: "MessageConfig list"

definition response_status :: "server_state \<Rightarrow> nat" where
  "response_status s = (case Status s of None \<Rightarrow> 200 | Some c \<Rightarrow> c)"

text \<open>
  What the program gets from outside its own code: the result of \<^verbatim>\<open>hook.Parse\<close>
  for a secret and a request (the payload and the error, as the library returns
  them), the result of \<^verbatim>\<open>bot.Send\<close>, the host name, the clock, and what the
  libraries write for \<^verbatim>\<open>/version\<close> and for a request that matches no route.
\<close>

record externals =
  hook_Parse :: "string \<Rightarrow> request \<Rightarrow> payload \<times> go_error option"
  bot_Send :: "MessageConfig \<Rightarrow> go_error option"
  os_Hostname :: "go_error + string"
  time_Now_UnixNano :: int64
  time_Since :: int64
  json_Encode :: "(string \<times> string) list \<Rightarrow> string"
  mux_unmatched :: "request \<Rightarrow> nat \<times> string"

type_synonym handler = "request \<Rightarrow> server_state \<Rightarrow> server_state"

section \<open>Writing and logging\<close>

text \<open>\<^verbatim>\<open>fmt.Fprint(w, str)\<close> on the response writer.\<close>

definition Fprint :: "string \<Rightarrow> server_state \<Rightarrow> server_state" where
  "Fprint str s =
     s\<lparr>Status := (case Status s of None \<Rightarrow> Some 200 | Some c \<Rightarrow> Some c),
       ResponseBody := ResponseBody s @ str\<rparr>"

definition log_entry ::
  "Level \<Rightarrow> (string \<rightharpoonup> field) \<Rightarrow> message \<Rightarrow> server_state \<Rightarrow> server_state" where
  "log_entry l d m s =
     s\<lparr>Log := Log s @ [\<lparr>entry_Level = l, entry_Data = d, entry_Message = m\<rparr>]\<rparr>"

text \<open>The entries of a log at error level.\<close>

definition error_entries :: "entry list \<Rightarrow> entry list" where
  "error_entries es = filter (\<lambda>e. entry_Level e = ErrorLevel) es"

section \<open>Formatting integers\<close>

text \<open>
  \<^verbatim>\<open>strconv.FormatInt(i, 10)\<close>, which is also what \<^verbatim>\<open>%v\<close> prints for an
  \<^verbatim>\<open>int64\<close>: the decimal digits, with a minus sign for a negative number.
\<close>

fun digits :: "nat \<Rightarrow> string" where
  "digits n = (if n < 10 then [''0123456789'' ! n] else digits (n div 10) @ [''0123456789'' ! (n mod 10)])"

definition FormatInt :: "int64 \<Rightarrow> string" where
  "FormatInt i = (if sint i < 0 then CHR ''-'' # digits (nat (- sint i)) else digits (nat (sint i)))"


section \<open>The webhook handler (main.go, lines 94 to 123)\<close>

text \<open>
  The template of the notification. The source's string holds a line feed after each
  of its first two sentences and the four bytes of the party popper emoji in UTF-8.
\<close>

definition rawMsgS :: "WatchPayload \<Rightarrow> string" where
  "rawMsgS watchRequest =
     ''New Github star for *'' @ Repository_Name watchRequest @ ''* repo!. '' @ [CHR 0x0A] @
     ''The *'' @ Repository_Name watchRequest @ ''* repo now has *'' @
     FormatInt (Repository_StargazersCount watchRequest) @ ''* stars! '' @
     [CHR 0xF0, CHR 0x9F, CHR 0x8E, CHR 0x89] @ ''. '' @ [CHR 0x0A] @
     ''Your new fan is '' @ Sender_HTMLURL watchRequest"

text \<open>
  The branch of the type switch for a \<^verbatim>\<open>WatchPayload\<close>: log, build the message,
  hand it to \<^verbatim>\<open>bot.Send\<close>, log a failure of the send, write \<^verbatim>\<open>OK\<close>.
\<close>

definition watch_case :: "int64 \<Rightarrow> externals \<Rightarrow> WatchPayload \<Rightarrow> server_state \<Rightarrow> server_state" where
  "watch_case telegramChatID E watchRequest s =
     (let s1 = log_entry InfoLevel Map.empty (Msg ''Is Watch request'') s;
          msg = (NewMessage telegramChatID (rawMsgS watchRequest))\<lparr>ParseMode := ''markdown''\<rparr>;
          s2 = s1\<lparr>Sent := Sent s1 @ [msg]\<rparr>;
          s3 = (case bot_Send E msg of
                  None \<Rightarrow> s2
                | Some errBot \<Rightarrow> log_entry InfoLevel Map.empty (MsgErr ''Message can't send, '' errBot) s2)
      in Fprint ''OK'' s3)"

definition webhook_handler :: "string \<Rightarrow> int64 \<Rightarrow> externals \<Rightarrow> handler" where
  "webhook_handler secret telegramChatID E r s =
     (let (payload, err) = hook_Parse E secret r;
          s1 = (case err of
                  None \<Rightarrow> s
                | Some e \<Rightarrow>
                    if e = ErrEventNotFound
                    then log_entry ErrorLevel
                           [''event'' \<mapsto> FString (Header_Get (Header r) ''X-GitHub-Event'')]
                           (MsgErr [] e) s
                    else s);
          s2 = (case payload of
                  Watch watchRequest \<Rightarrow> watch_case telegramChatID E watchRequest s1
                | NilPayload \<Rightarrow> s1
                | OtherPayload \<Rightarrow> s1)
      in Fprint ''Event received. Have a nice day'' s2)"

section \<open>The other routes and the router (main.go, lines 84 to 123)\<close>

text \<open>
  \<^verbatim>\<open>/version\<close> writes the JSON encoding of the map with the one key
  \<^verbatim>\<open>version\<close>; \<^verbatim>\<open>/health\<close> writes \<^verbatim>\<open>OK\<close>.
\<close>

definition version_handler :: "string \<Rightarrow> externals \<Rightarrow> handler" where
  "version_handler Version E r s = Fprint (json_Encode E [(''version'', Version)]) s"

definition health_handler :: handler where
  "health_handler r s = Fprint ''OK'' s"

text \<open>
  A request that matches no route (another path, or the path of a route with another
  method) is answered by the mux itself, with the status and body \<open>mux_unmatched\<close>
  gives.
\<close>

definition unmatched_handler :: "externals \<Rightarrow> handler" where
  "unmatched_handler E r s =
     s\<lparr>Status := Some (fst (mux_unmatched E r)),
       ResponseBody := ResponseBody s @ snd (mux_unmatched E r)\<rparr>"

text \<open>The configuration \<^verbatim>\<open>main\<close> builds before it serves.\<close>

record config =
  cfg_Version :: string
  cfg_secret :: string
  cfg_telegramChatID :: int64
  cfg_Addr :: string

definition router :: "config \<Rightarrow> externals \<Rightarrow> handler" where
  "router cfg E r s =
     (if URL_Path r = ''/version'' \<and> Method r = ''GET'' then version_handler (cfg_Version cfg) E r s
      else if URL_Path r = ''/health'' \<and> Method r = ''GET'' then health_handler r s
      else if URL_Path r = ''/webhook'' \<and> Method r = ''POST''
        then webhook_handler (cfg_secret cfg) (cfg_telegramChatID cfg) E r s
      else unmatched_handler E r s)"

section \<open>Latency in milliseconds (main.go, line 168)\<close>

text \<open>
  \<^verbatim>\<open>int(math.Ceil(float64(stop.Nanoseconds()) / 1000000.0))\<close>. A finite
  \<^verbatim>\<open>float64\<close> is the rational number it denotes. The conversion of an integer and
  the division are correctly rounded operations of IEEE 754 binary64: the result is
  the exact result rounded to 53 significant bits, a tie going to the even
  significand. (No value here is large enough to overflow: the operands are an
  \<^verbatim>\<open>int64\<close> and one million.)
\<close>

definition round_half_even :: "rat \<Rightarrow> int" where
  "round_half_even x =
     (let f = \<lfloor>x\<rfloor> in
      if x - of_int f < 1 / 2 then f
      else if 1 / 2 < x - of_int f then f + 1
      else if even f then f else f + 1)"

text \<open>For \<open>0 < x\<close>, the exponent \<open>e\<close> with \<open>2 ^ e \<le> x < 2 ^ (e + 1)\<close>.\<close>

definition ilog2 :: "rat \<Rightarrow> int" where
  "ilog2 x =
     (let e = bitlen (fst (quotient_of x)) - bitlen (snd (quotient_of x))
      in if power_int 2 e \<le> x then e else e - 1)"

definition float64_round :: "rat \<Rightarrow> rat" where
  "float64_round x =
     (if x = 0 then 0
      else let ulp = power_int 2 (max (ilog2 \<bar>x\<bar> - 52) (- 1074))
           in sgn x * of_int (round_half_even (\<bar>x\<bar> / ulp)) * ulp)"

definition float64 :: "int64 \<Rightarrow> rat" where
  "float64 i = float64_round (of_int (sint i))"

definition float64_quo :: "rat \<Rightarrow> rat \<Rightarrow> rat" where
  "float64_quo x y = float64_round (x / y)"

text \<open>
  \<^verbatim>\<open>math.Ceil\<close> gives an integer-valued \<^verbatim>\<open>float64\<close>, which \<^verbatim>\<open>int(...)\<close>
  converts without loss.
\<close>

definition latency :: "int64 \<Rightarrow> int" where
  "latency stop = \<lceil>float64_quo (float64 stop) 1000000\<rceil>"

section \<open>The middlewares (main.go, lines 147 to 207)\<close>

text \<open>
  \<^verbatim>\<open>logging\<close> runs the next handler and then writes one entry at info level.
  \<open>time_Since\<close> is what \<^verbatim>\<open>time.Since(start)\<close> returns once the next handler is
  done.
\<close>

definition logging :: "externals \<Rightarrow> handler \<Rightarrow> handler" where
  "logging E next r s =
     (let requestID = (case Context_requestID r of None \<Rightarrow> ''unknown'' | Some v \<Rightarrow> v);
          hostname = (case os_Hostname E of Inl err \<Rightarrow> ''unknow'' | Inr h \<Rightarrow> h);
          s1 = next r s;
          stop = time_Since E;
          IPAddress0 = Header_Get (Header r) ''X-Real-Ip'';
          IPAddress1 = (if IPAddress0 = [] then Header_Get (Header r) ''X-Forwarded-For'' else IPAddress0);
          IPAddress = (if IPAddress1 = [] then RemoteAddr r else IPAddress1)
      in log_entry InfoLevel
           [''hostname'' \<mapsto> FString hostname,
            ''requestID'' \<mapsto> FString requestID,
            ''latency'' \<mapsto> FInt (latency stop),
            ''clientIP'' \<mapsto> FString IPAddress,
            ''method'' \<mapsto> FString (Method r),
            ''path'' \<mapsto> FString (URL_Path r),
            ''header'' \<mapsto> FHeader (Header r),
            ''referer'' \<mapsto> FString (Header_Get (Header r) ''Referer''),
            ''userAgent'' \<mapsto> FString (Header_Get (Header r) ''User-Agent'')]
           (Msg ''Request'') s1)"

definition tracing :: "externals \<Rightarrow> handler \<Rightarrow> handler" where
  "tracing E next r s =
     (let requestID0 = Header_Get (Header r) ''X-Request-Id'';
          requestID = (if requestID0 = [] then FormatInt (time_Now_UnixNano E) else requestID0)
      in next (r\<lparr>Context_requestID := Some requestID\<rparr>)
              (s\<lparr>ResponseHeader := Header_Set (ResponseHeader s) ''X-Request-Id'' requestID\<rparr>))"

text \<open>
  The server's handler (line 127), run on one request with a new response writer.
  The log and the list of messages start empty, so that they hold what this request
  adds.
\<close>

definition new_state :: server_state where
  "new_state = \<lparr>Status = None, ResponseHeader = Map.empty, ResponseBody = [], Log = [], Sent = []\<rparr>"

definition ServeHTTP :: "config \<Rightarrow> externals \<Rightarrow> request \<Rightarrow> server_state" where
  "ServeHTTP cfg E r = tracing E (logging E (router cfg E)) r new_state"

section \<open>Start of the process (main.go, lines 56 to 139, and getenv)\<close>

definition getenv :: "(string \<Rightarrow> string) \<Rightarrow> string \<Rightarrow> string \<Rightarrow> string" where
  "getenv os_Getenv key fallback =
     (let v = os_Getenv key in if length v = 0 then fallback else v)"

text \<open>
  \<^verbatim>\<open>strconv.ParseInt(s, 10, 64)\<close>, the value only (the source drops the error):
  an optional sign and decimal digits; 0 for an empty or malformed text; the nearest
  bound of \<^verbatim>\<open>int64\<close> for a number out of its range.
\<close>

fun parse_digits :: "int \<Rightarrow> string \<Rightarrow> int option" where
  "parse_digits acc [] = Some acc"
| "parse_digits acc (c # cs) =
     (if (48::int) \<le> of_char c \<and> (of_char c :: int) \<le> 57
      then parse_digits (acc * 10 + (of_char c - 48)) cs
      else None)"

definition ParseInt :: "string \<Rightarrow> int64" where
  "ParseInt s =
     (let neg = (s \<noteq> [] \<and> hd s = CHR ''-'');
          ds = (if s \<noteq> [] \<and> (hd s = CHR ''+'' \<or> hd s = CHR ''-'') then tl s else s)
      in if ds = [] then 0
         else case parse_digits 0 ds of
                None \<Rightarrow> 0
              | Some un \<Rightarrow>
                  if \<not> neg \<and> 2 ^ 63 \<le> un then word_of_int (2 ^ 63 - 1)
                  else if neg \<and> 2 ^ 63 < un then word_of_int (- (2 ^ 63))
                  else if neg then word_of_int (- un) else word_of_int un)"

text \<open>
  What \<^verbatim>\<open>main\<close> gets from outside: the environment variables, the values of the
  flags \<^verbatim>\<open>listen\<close> and \<^verbatim>\<open>port\<close>, the error of \<^verbatim>\<open>tgbotapi.NewBotAPI\<close> for a token
  (\<open>None\<close> when the client is created) and the error of
  \<^verbatim>\<open>srv.ListenAndServe\<close> for an address (\<open>None\<close> while the server serves).
\<close>

record process =
  os_Getenv :: "string \<Rightarrow> string"
  flag_listen :: string
  flag_port :: string
  NewBotAPI :: "string \<Rightarrow> go_error option"
  ListenAndServe :: "string \<Rightarrow> go_error option"

text \<open>
  How \<^verbatim>\<open>main\<close> ends: the process exits with a code (\<^verbatim>\<open>log.Fatal\<close> exits with 1),
  it panics (\<^verbatim>\<open>log.Panicf\<close>), or it serves requests with a configuration.
\<close>

datatype outcome = Exit nat | Panic | Serving config

definition mk_entry :: "Level \<Rightarrow> message \<Rightarrow> entry" where
  "mk_entry l m = \<lparr>entry_Level = l, entry_Data = Map.empty, entry_Message = m\<rparr>"

definition main :: "string \<Rightarrow> process \<Rightarrow> entry list \<times> outcome" where
  "main Version P =
     (let log0 = [mk_entry InfoLevel (Msg (''Init Star '' @ Version))];
          secret = getenv (os_Getenv P) ''GITHUB_SECRET'' []
      in if secret = [] then (log0 @ [mk_entry FatalLevel (Msg ''Github webhook secret not set'')], Exit 1)
         else
           let telegramToken = getenv (os_Getenv P) ''TELEGRAM_TOKEN'' [];
               log1 = (if telegramToken = []
                       then log0 @ [mk_entry ErrorLevel (Msg ''Telegram token not set'')] else log0);
               telegramChat = getenv (os_Getenv P) ''TELEGRAM_CHAT'' [];
               log2 = (if telegramChat = []
                       then log1 @ [mk_entry ErrorLevel (Msg ''Telegram Chat ID not set'')] else log1);
               telegramChatID = ParseInt telegramChat
           in case NewBotAPI P telegramToken of
                Some err \<Rightarrow> (log2 @ [mk_entry PanicLevel (MsgErr ''Bot can't connect , '' err)], Panic)
              | None \<Rightarrow>
                  let addr = flag_listen P @ '':'' @ flag_port P;
                      log3 = log2 @ [mk_entry InfoLevel (Msg (''Serve at: '' @ addr))]
                  in (case ListenAndServe P addr of
                        Some errServe \<Rightarrow>
                          (log3 @ [mk_entry FatalLevel (MsgErr ''Server err '' errServe)], Exit 1)
                      | None \<Rightarrow>
                          (log3, Serving \<lparr>cfg_Version = Version, cfg_secret = secret,
                                          cfg_telegramChatID = telegramChatID, cfg_Addr = addr\<rparr>)))"

section \<open>Example inputs\<close>

text \<open>
  A configuration, a request to \<^verbatim>\<open>/webhook\<close> with a given event type, the payload
  of the specification's example, and an outside world where \<^verbatim>\<open>hook.Parse\<close> and
  \<^verbatim>\<open>bot.Send\<close> return given results.
\<close>

definition example_config :: config where
  "example_config =
     \<lparr>cfg_Version = ''dev'', cfg_secret = ''s3cret'', cfg_telegramChatID = 1001,
      cfg_Addr = ''0.0.0.0:8080''\<rparr>"

definition example_request :: "string \<Rightarrow> request" where
  "example_request event =
     \<lparr>Method = ''POST'', URL_Path = ''/webhook'',
      Header = [''X-GitHub-Event'' \<mapsto> [event], ''X-Hub-Signature'' \<mapsto> [''sha1=0a1b2c''],
                ''X-Real-Ip'' \<mapsto> [''203.0.113.7'']],
      Body = ''{}'', RemoteAddr = ''192.0.2.1:4242'', Context_requestID = None\<rparr>"

definition example_watch :: WatchPayload where
  "example_watch =
     \<lparr>Repository_Name = ''star'', Repository_StargazersCount = 42,
      Sender_HTMLURL = ''https://github.com/alice''\<rparr>"

definition example_externals :: "payload \<times> go_error option \<Rightarrow> go_error option \<Rightarrow> externals" where
  "example_externals parsed sent =
     \<lparr>hook_Parse = (\<lambda>secret r. parsed), bot_Send = (\<lambda>msg. sent),
      os_Hostname = Inr ''star-1'', time_Now_UnixNano = 1600000000000000000,
      time_Since = 1500000, json_Encode = (\<lambda>kv. ''{}''),
      mux_unmatched = (\<lambda>r. (404, ''404 page not found''))\<rparr>"

text \<open>
  A process with given values of \<^verbatim>\<open>GITHUB_SECRET\<close>, \<^verbatim>\<open>TELEGRAM_TOKEN\<close> and
  \<^verbatim>\<open>TELEGRAM_CHAT\<close>, where the Telegram client cannot be created with an empty
  token (the library asks Telegram who the bot is, and Telegram knows no bot with an
  empty token) and the server can listen.
\<close>

definition example_process :: "string \<Rightarrow> string \<Rightarrow> string \<Rightarrow> process" where
  "example_process secret token chat =
     \<lparr>os_Getenv = (\<lambda>key. if key = ''GITHUB_SECRET'' then secret
                           else if key = ''TELEGRAM_TOKEN'' then token
                           else if key = ''TELEGRAM_CHAT'' then chat else []),
      flag_listen = ''0.0.0.0'', flag_port = ''8080'',
      NewBotAPI = (\<lambda>token. if token = [] then Some (OtherError ''Not Found'') else None),
      ListenAndServe = (\<lambda>addr. None)\<rparr>"

section \<open>Lemmas on the response writer and the log\<close>

lemma Status_Fprint:
  "Status (Fprint str s) = Some (case Status s of None \<Rightarrow> 200 | Some c \<Rightarrow> c)"
  by (simp add: Fprint_def split: option.split)

lemma Fprint_simps:
  "ResponseBody (Fprint str s) = ResponseBody s @ str"
  "ResponseHeader (Fprint str s) = ResponseHeader s"
  "Log (Fprint str s) = Log s"
  "Sent (Fprint str s) = Sent s"
  by (simp_all add: Fprint_def)

lemma log_entry_simps:
  "Status (log_entry l d m s) = Status s"
  "ResponseBody (log_entry l d m s) = ResponseBody s"
  "ResponseHeader (log_entry l d m s) = ResponseHeader s"
  "Log (log_entry l d m s) = Log s @ [\<lparr>entry_Level = l, entry_Data = d, entry_Message = m\<rparr>]"
  "Sent (log_entry l d m s) = Sent s"
  by (simp_all add: log_entry_def)

lemma error_entries_Nil: "error_entries [] = []"
  by (simp add: error_entries_def)

lemma error_entries_log_entry:
  "error_entries (Log (log_entry l d m s)) =
     error_entries (Log s) @
     (if l = ErrorLevel then [\<lparr>entry_Level = l, entry_Data = d, entry_Message = m\<rparr>] else [])"
  by (simp add: log_entry_def error_entries_def)

lemma response_status_Some: "Status s = Some c \<Longrightarrow> response_status s = c"
  by (simp add: response_status_def)

section \<open>Lemmas on the webhook handler\<close>

lemma watch_case_Status:
  "Status (watch_case c E p s) = Some (case Status s of None \<Rightarrow> 200 | Some c \<Rightarrow> c)"
  by (simp add: watch_case_def Let_def Status_Fprint log_entry_simps split: option.split)

lemma watch_case_Body: "ResponseBody (watch_case c E p s) = ResponseBody s @ ''OK''"
  by (simp add: watch_case_def Let_def Fprint_simps log_entry_simps split: option.split)

lemma watch_case_Header: "ResponseHeader (watch_case c E p s) = ResponseHeader s"
  by (simp add: watch_case_def Let_def Fprint_simps log_entry_simps split: option.split)

lemma watch_case_Sent:
  "Sent (watch_case c E p s) =
     Sent s @ [\<lparr>ChatID = c, Text = rawMsgS p, ParseMode = ''markdown''\<rparr>]"
  by (simp add: watch_case_def Let_def Fprint_simps log_entry_simps NewMessage_def
      split: option.split)

lemma watch_case_errors: "error_entries (Log (watch_case c E p s)) = error_entries (Log s)"
  by (simp add: watch_case_def Let_def Fprint_simps log_entry_simps error_entries_def
      split: option.split)

lemma webhook_handler_Status:
  "Status (webhook_handler secret c E r s) = Some (case Status s of None \<Rightarrow> 200 | Some c \<Rightarrow> c)"
  by (simp add: webhook_handler_def Let_def Status_Fprint log_entry_simps watch_case_Status
      split: prod.split option.split payload.split)

lemma webhook_handler_Body:
  "ResponseBody (webhook_handler secret c E r s) =
     ResponseBody s @ (case fst (hook_Parse E secret r) of Watch w \<Rightarrow> ''OK'' | _ \<Rightarrow> [])
       @ ''Event received. Have a nice day''"
  by (simp add: webhook_handler_def Let_def Fprint_simps log_entry_simps watch_case_Body
      split: prod.split option.split payload.split)

lemma webhook_handler_Header:
  "ResponseHeader (webhook_handler secret c E r s) = ResponseHeader s"
  by (simp add: webhook_handler_def Let_def Fprint_simps log_entry_simps watch_case_Header
      split: prod.split option.split payload.split)

lemma webhook_handler_Sent:
  "Sent (webhook_handler secret c E r s) =
     Sent s @ (case fst (hook_Parse E secret r) of
                 Watch w \<Rightarrow> [\<lparr>ChatID = c, Text = rawMsgS w, ParseMode = ''markdown''\<rparr>]
               | _ \<Rightarrow> [])"
  by (simp add: webhook_handler_def Let_def Fprint_simps log_entry_simps watch_case_Sent
      split: prod.split option.split payload.split)

lemma webhook_handler_errors:
  "error_entries (Log (webhook_handler secret c E r s)) =
     error_entries (Log s) @
     (if snd (hook_Parse E secret r) = Some ErrEventNotFound
      then [\<lparr>entry_Level = ErrorLevel,
             entry_Data = [''event'' \<mapsto> FString (Header_Get (Header r) ''X-GitHub-Event'')],
             entry_Message = MsgErr [] ErrEventNotFound\<rparr>]
      else [])"
  by (simp add: webhook_handler_def Let_def Fprint_simps error_entries_log_entry watch_case_errors
      split: prod.split option.split payload.split)

section \<open>Lemmas on the middlewares and the router\<close>

lemma logging_simps:
  "Status (logging E next r s) = Status (next r s)"
  "ResponseBody (logging E next r s) = ResponseBody (next r s)"
  "ResponseHeader (logging E next r s) = ResponseHeader (next r s)"
  "Sent (logging E next r s) = Sent (next r s)"
  "error_entries (Log (logging E next r s)) = error_entries (Log (next r s))"
  by (simp_all add: logging_def Let_def log_entry_simps error_entries_def)

text \<open>What \<^verbatim>\<open>tracing\<close> hands to the rest of the chain.\<close>

lemma tracing_ServeHTTP:
  "ServeHTTP cfg E r =
     logging E (router cfg E)
       (r\<lparr>Context_requestID := Some (if Header_Get (Header r) ''X-Request-Id'' = []
                                        then FormatInt (time_Now_UnixNano E)
                                        else Header_Get (Header r) ''X-Request-Id'')\<rparr>)
       (new_state\<lparr>ResponseHeader := Header_Set Map.empty ''X-Request-Id''
          (if Header_Get (Header r) ''X-Request-Id'' = []
           then FormatInt (time_Now_UnixNano E)
           else Header_Get (Header r) ''X-Request-Id'')\<rparr>)"
  by (simp add: ServeHTTP_def tracing_def Let_def new_state_def)

lemma router_webhook:
  "Method r = ''POST'' \<Longrightarrow> URL_Path r = ''/webhook'' \<Longrightarrow>
   router cfg E r s = webhook_handler (cfg_secret cfg) (cfg_telegramChatID cfg) E r s"
  by (simp add: router_def)

lemma ServeHTTP_webhook_Status:
  assumes "Method r = ''POST''" "URL_Path r = ''/webhook''"
  shows "Status (ServeHTTP cfg E r) = Some 200"
  using assms
  by (simp add: tracing_ServeHTTP logging_simps router_webhook webhook_handler_Status new_state_def)

lemma ServeHTTP_webhook_Body:
  assumes "Method r = ''POST''" "URL_Path r = ''/webhook''"
    and "\<forall>c. hook_Parse E (cfg_secret cfg) (r\<lparr>Context_requestID := c\<rparr>) = (p, err)"
  shows "ResponseBody (ServeHTTP cfg E r) =
     (case p of Watch w \<Rightarrow> ''OK'' | _ \<Rightarrow> []) @ ''Event received. Have a nice day''"
  using assms
  by (simp add: tracing_ServeHTTP logging_simps router_webhook webhook_handler_Body new_state_def)

lemma ServeHTTP_webhook_Sent:
  assumes "Method r = ''POST''" "URL_Path r = ''/webhook''"
    and "\<forall>c. hook_Parse E (cfg_secret cfg) (r\<lparr>Context_requestID := c\<rparr>) = (p, err)"
  shows "Sent (ServeHTTP cfg E r) =
     (case p of
        Watch w \<Rightarrow> [\<lparr>ChatID = cfg_telegramChatID cfg, Text = rawMsgS w, ParseMode = ''markdown''\<rparr>]
      | _ \<Rightarrow> [])"
  using assms
  by (simp add: tracing_ServeHTTP logging_simps router_webhook webhook_handler_Sent new_state_def)

lemma ServeHTTP_webhook_errors:
  assumes "Method r = ''POST''" "URL_Path r = ''/webhook''"
    and "\<forall>c. hook_Parse E (cfg_secret cfg) (r\<lparr>Context_requestID := c\<rparr>) = (p, err)"
  shows "error_entries (Log (ServeHTTP cfg E r)) =
     (if err = Some ErrEventNotFound
      then [\<lparr>entry_Level = ErrorLevel,
             entry_Data = [''event'' \<mapsto> FString (Header_Get (Header r) ''X-GitHub-Event'')],
             entry_Message = MsgErr [] ErrEventNotFound\<rparr>]
      else [])"
  using assms
  by (simp add: tracing_ServeHTTP logging_simps router_webhook webhook_handler_errors new_state_def
      error_entries_Nil)

lemma example_request_simps:
  "Method (example_request ev) = ''POST''"
  "URL_Path (example_request ev) = ''/webhook''"
  "Header_Get (Header (example_request ev)) ''X-GitHub-Event'' = ev"
  "hook_Parse (example_externals parsed sent) secret r = parsed"
  by (simp_all add: example_request_def example_externals_def Header_Get_def)

section \<open>Lemmas on the notification text\<close>

lemma digits_nonempty: "digits n \<noteq> []"
  by (subst digits.simps) simp

lemma FormatInt_nonempty: "FormatInt i \<noteq> []"
  by (simp add: FormatInt_def digits_nonempty)




section \<open>Lemmas on the access log\<close>

lemma router_Header: "ResponseHeader (router cfg E r s) = ResponseHeader s"
  by (simp add: router_def version_handler_def health_handler_def unmatched_handler_def
      Fprint_simps webhook_handler_Header)

lemma logging_last:
  "Log (logging E next r s) \<noteq> []"
  "entry_Level (last (Log (logging E next r s))) = InfoLevel"
  "entry_Data (last (Log (logging E next r s))) ''requestID'' =
     Some (FString (case Context_requestID r of None \<Rightarrow> ''unknown'' | Some v \<Rightarrow> v))"
  "entry_Data (last (Log (logging E next r s))) ''latency'' = Some (FInt (latency (time_Since E)))"
  "entry_Data (last (Log (logging E next r s))) ''clientIP'' =
     Some (FString (if Header_Get (Header r) ''X-Real-Ip'' \<noteq> [] then Header_Get (Header r) ''X-Real-Ip''
                    else if Header_Get (Header r) ''X-Forwarded-For'' \<noteq> []
                         then Header_Get (Header r) ''X-Forwarded-For''
                         else RemoteAddr r))"
  by (simp_all add: logging_def Let_def log_entry_simps)

section \<open>Lemmas on rounding and the latency\<close>

text \<open>
  The exponent is the one the definition computes: it is the only one whose binade
  holds the number. With it, an integer of at most 53 bits is its own rounding, and a
  quotient strictly between 1 and 2 that is a multiple of one millionth stays strictly
  between 1 and 2 when rounded.
\<close>

lemma round_half_even_of_int: "round_half_even (of_int k) = k"
  by (simp add: round_half_even_def)

lemma round_half_even_bounds:
  "\<lfloor>x\<rfloor> \<le> round_half_even x" "round_half_even x \<le> \<lfloor>x\<rfloor> + 1"
  by (simp_all add: round_half_even_def Let_def)

lemma bitlen_powi_bounds:
  assumes "0 < k"
  shows "(2::rat) powi (bitlen k - 1) \<le> of_int k" and "of_int k < (2::rat) powi (bitlen k)"
proof -
  have pos: "1 \<le> bitlen k"
    using assms bitlen_eq_zero_iff [of k] bitlen_nonneg [of k] by linarith
  from bitlen_bounds [OF assms]
  have a: "2 ^ nat (bitlen k - 1) \<le> k" and b: "k < 2 ^ nat (bitlen k)" by simp_all
  have "(of_int (2 ^ nat (bitlen k - 1)) :: rat) \<le> of_int k"
    using a by (simp only: of_int_le_iff)
  then show "(2::rat) powi (bitlen k - 1) \<le> of_int k"
    using pos by (simp add: power_int_def)
  have "(of_int k :: rat) < of_int (2 ^ nat (bitlen k))"
    using b by (simp only: of_int_less_iff)
  then show "of_int k < (2::rat) powi (bitlen k)"
    using pos by (simp add: power_int_def)
qed

lemma ilog2_range:
  assumes "0 < x"
  defines "e0 \<equiv> bitlen (fst (quotient_of x)) - bitlen (snd (quotient_of x))"
  shows "(2::rat) powi (e0 - 1) < x" and "x < (2::rat) powi (e0 + 1)"
proof -
  obtain p q where pq: "quotient_of x = (p, q)" by (cases "quotient_of x")
  have q: "0 < q" using pq by (rule quotient_of_denom_pos)
  have x: "x = of_int p / of_int q" using pq by (rule quotient_of_div)
  have p: "0 < p"
    using assms(1) q x by (simp add: zero_less_divide_iff)
  note P = bitlen_powi_bounds [OF p] and Q = bitlen_powi_bounds [OF q]
  have e0: "e0 = bitlen p - bitlen q" by (simp add: e0_def pq)
  have Qpos: "(0::rat) < of_int q" using q by simp
  have A: "(2::rat) powi (e0 - 1) = 2 powi (bitlen p - 1) / 2 powi (bitlen q)"
    by (simp add: e0 power_int_diff)
  have eB: "e0 + 1 = bitlen p - (bitlen q - 1)" by (simp add: e0)
  have B: "(2::rat) powi (e0 + 1) = 2 powi (bitlen p) / 2 powi (bitlen q - 1)"
    unfolding eB by (rule power_int_diff) simp
  have pw: "(0::rat) < 2 powi k" for k by simp
  have Ppos: "(0::rat) \<le> of_int p" using p by simp
  have "(2::rat) powi (bitlen p - 1) / 2 powi (bitlen q) < of_int p / of_int q"
    by (rule frac_less2 [OF pw P(1) Qpos Q(2)])
  then show "(2::rat) powi (e0 - 1) < x" by (simp only: A x)
  have "of_int p / of_int q < (2::rat) powi (bitlen p) / 2 powi (bitlen q - 1)"
    by (rule frac_less [OF Ppos P(2) pw Q(1)])
  then show "x < (2::rat) powi (e0 + 1)" by (simp only: B x)
qed

lemma powi_less_imp_less: "(2::rat) powi a < 2 powi b \<Longrightarrow> a < b"
proof (rule ccontr)
  assume lt: "(2::rat) powi a < 2 powi b" and "\<not> a < b"
  then have "b \<le> a" by simp
  then have "(2::rat) powi b \<le> 2 powi a" by (rule power_int_increasing) simp
  with lt show False by simp
qed

lemma ilog2_unique:
  assumes "0 < x" and lo: "(2::rat) powi e \<le> x" and hi: "x < (2::rat) powi (e + 1)"
  shows "ilog2 x = e"
proof -
  define e0 where "e0 = bitlen (fst (quotient_of x)) - bitlen (snd (quotient_of x))"
  have r1: "(2::rat) powi (e0 - 1) < x" and r2: "x < (2::rat) powi (e0 + 1)"
    unfolding e0_def by (rule ilog2_range [OF assms(1)])+
  have "(2::rat) powi e < 2 powi (e0 + 1)" using lo r2 by simp
  then have le: "e \<le> e0" using powi_less_imp_less by fastforce
  have "(2::rat) powi (e0 - 1) < 2 powi (e + 1)" using r1 hi by simp
  then have ge: "e0 - 1 \<le> e" using powi_less_imp_less by fastforce
  have il: "ilog2 x = (if 2 powi e0 \<le> x then e0 else e0 - 1)"
    by (simp add: ilog2_def e0_def Let_def)
  show ?thesis
  proof (cases "e = e0")
    case True
    then show ?thesis using il lo by simp
  next
    case False
    then have e: "e = e0 - 1" using le ge by simp
    then have "x < 2 powi e0" using hi by simp
    then show ?thesis using il e by simp
  qed
qed

lemma float64_round_exact:
  assumes "(2::rat) powi e \<le> of_int n" and "of_int n < (2::rat) powi (e + 1)"
    and "0 \<le> e" and "e \<le> 52"
  shows "float64_round (of_int n) = of_int n"
proof -
  have npos: "(0::rat) < of_int n"
    using assms(1) by (rule less_le_trans [rotated]) simp
  have il: "ilog2 (of_int n) = e"
    using npos assms(1,2) by (rule ilog2_unique)
  have mx: "max (e - 52) (- 1074) = e - 52" using assms(3) by simp
  have "(2::rat) powi (e - 52) = 1 / 2 ^ nat (52 - e)"
    using assms(4) by (simp add: power_int_def field_simps)
  then have "of_int n / (2::rat) powi (e - 52) = of_int (n * 2 ^ nat (52 - e))"
    by simp
  then have "round_half_even (of_int n / 2 powi (e - 52)) = n * 2 ^ nat (52 - e)"
    by (simp only: round_half_even_of_int)
  moreover have "of_int (n * 2 ^ nat (52 - e)) * (2::rat) powi (e - 52) = of_int n"
    using \<open>(2::rat) powi (e - 52) = 1 / 2 ^ nat (52 - e)\<close> by simp
  ultimately show ?thesis
    using npos by (simp add: float64_round_def il mx Let_def)
qed


lemma float64_round_between_1_and_2:
  assumes "1000001 / 1000000 \<le> q" and "q \<le> 1999999 / 1000000"
  shows "1 < float64_round q" and "float64_round q < 2"
proof -
  have qpos: "0 < q" using assms(1) by simp
  have il: "ilog2 q = 0"
    using qpos assms by (intro ilog2_unique) simp_all
  define m where "m = round_half_even (q * 4503599627370496)"
  have ulp: "(2::rat) powi (- 52) = 1 / 4503599627370496"
    by (simp add: power_int_def field_simps)
  have fr: "float64_round q = of_int m / 4503599627370496"
    using qpos by (simp add: float64_round_def il Let_def ulp m_def)
  have "4503599627370497 \<le> \<lfloor>q * 4503599627370496\<rfloor>"
    using assms(1) by (simp add: le_floor_iff)
  then have lo: "4503599627370497 \<le> m"
    using round_half_even_bounds(1) [of "q * 4503599627370496"] unfolding m_def by linarith
  have "\<lfloor>q * 4503599627370496\<rfloor> < 9007199254740991"
    using assms(2) by (simp add: floor_less_iff)
  then have hi: "m \<le> 9007199254740991"
    using round_half_even_bounds(2) [of "q * 4503599627370496"] unfolding m_def by linarith
  have "(of_int (4503599627370497::int) :: rat) \<le> of_int m"
    using lo by (simp only: of_int_le_iff)
  then show "1 < float64_round q" by (simp add: fr)
  have "(of_int m :: rat) \<le> of_int (9007199254740991::int)"
    using hi by (simp only: of_int_le_iff)
  then show "float64_round q < 2" by (simp add: fr)
qed

lemma float64_round_int_1ms_2ms:
  fixes n :: int
  assumes "1000000 \<le> n" and "n < 2000000"
  shows "float64_round (of_int n) = of_int n"
proof (cases "n < 1048576")
  case True
  show ?thesis
    by (rule float64_round_exact [where e = 19]) (use assms True in simp_all)
next
  case False
  show ?thesis
    by (rule float64_round_exact [where e = 20]) (use assms False in simp_all)
qed

lemma latency_int_1ms_2ms:
  fixes n :: int
  assumes "1000000 \<le> n" and "n < 2000000"
  shows "\<lceil>float64_round (float64_round (of_int n) / 1000000)\<rceil> = (if n = 1000000 then 1 else 2)"
proof (cases "n = 1000000")
  case True
  have one: "float64_round (of_int 1) = of_int 1"
    by (rule float64_round_exact [where e = 0]) simp_all
  have e1: "float64_round (of_int n) = of_int n"
    by (rule float64_round_int_1ms_2ms [OF assms])
  have "float64_round (of_int n) / 1000000 = (1::rat)"
    unfolding e1 using True by simp
  then have "\<lceil>float64_round (float64_round (of_int n) / 1000000)\<rceil> = \<lceil>float64_round 1\<rceil>"
    by (simp only:)
  also have "\<dots> = 1" using one by simp
  finally show ?thesis using True by simp
next
  case False
  define q :: rat where "q = of_int n / 1000000"
  have "1000001 \<le> n" using assms(1) False by simp
  then have "(of_int (1000001::int) :: rat) \<le> of_int n" by (simp only: of_int_le_iff)
  then have lo: "1000001 / 1000000 \<le> q" by (simp add: q_def)
  have "n \<le> 1999999" using assms(2) by simp
  then have "(of_int n :: rat) \<le> of_int (1999999::int)" by (simp only: of_int_le_iff)
  then have hi: "q \<le> 1999999 / 1000000" by (simp add: q_def)
  note b = float64_round_between_1_and_2 [OF lo hi]
  have "\<lceil>float64_round q\<rceil> = 2"
    by (rule ceiling_unique) (use b in simp_all)
  then show ?thesis
    using False by (simp add: float64_round_int_1ms_2ms [OF assms] q_def)
qed

lemma latency_1ms_2ms:
  assumes "1000000 \<le> sint stop" and "sint stop < 2000000"
  shows "latency stop = (if sint stop = 1000000 then 1 else 2)"
  unfolding latency_def float64_quo_def float64_def
  by (rule latency_int_1ms_2ms [OF assms])

lemma latency_1500000: "latency 1500000 = 2"
  by code_simp

section \<open>Lemmas on the start of the process\<close>

lemma getenv_empty_fallback: "getenv f key [] = f key"
  by (simp add: getenv_def Let_def)

text \<open>The outcome of \<^verbatim>\<open>main\<close> once the secret is there.\<close>

lemma main_outcome:
  assumes "os_Getenv P ''GITHUB_SECRET'' \<noteq> []"
  shows "snd (main Version P) =
     (case NewBotAPI P (os_Getenv P ''TELEGRAM_TOKEN'') of
        Some err \<Rightarrow> Panic
      | None \<Rightarrow>
          (case ListenAndServe P (flag_listen P @ '':'' @ flag_port P) of
             Some errServe \<Rightarrow> Exit 1
           | None \<Rightarrow> Serving \<lparr>cfg_Version = Version,
                                cfg_secret = os_Getenv P ''GITHUB_SECRET'',
                                cfg_telegramChatID = ParseInt (os_Getenv P ''TELEGRAM_CHAT''),
                                cfg_Addr = flag_listen P @ '':'' @ flag_port P\<rparr>))"
  using assms by (simp add: main_def getenv_empty_fallback Let_def split: option.split)

lemma main_log_token:
  assumes "os_Getenv P ''GITHUB_SECRET'' \<noteq> []" and "os_Getenv P ''TELEGRAM_TOKEN'' = []"
  shows "mk_entry ErrorLevel (Msg ''Telegram token not set'') \<in> set (fst (main Version P))"
  using assms by (simp add: main_def getenv_empty_fallback Let_def split: option.split)

lemma main_log_chat:
  assumes "os_Getenv P ''GITHUB_SECRET'' \<noteq> []" and "os_Getenv P ''TELEGRAM_CHAT'' = []"
  shows "mk_entry ErrorLevel (Msg ''Telegram Chat ID not set'') \<in> set (fst (main Version P))"
  using assms by (simp add: main_def getenv_empty_fallback Let_def split: option.split)

lemma main_no_secret:
  assumes "os_Getenv P ''GITHUB_SECRET'' = []"
  shows "main Version P =
     ([mk_entry InfoLevel (Msg (''Init Star '' @ Version)),
       mk_entry FatalLevel (Msg ''Github webhook secret not set'')], Exit 1)"
  using assms by (simp add: main_def getenv_empty_fallback Let_def)

lemma main_secret_not_fatal:
  assumes "os_Getenv P ''GITHUB_SECRET'' \<noteq> []"
  shows "mk_entry FatalLevel (Msg ''Github webhook secret not set'') \<notin> set (fst (main Version P))"
  using assms by (simp add: main_def getenv_empty_fallback Let_def mk_entry_def split: option.split)

section \<open>The webhook route\<close>

text \<open>
  In the theorems below a request is a \<^verbatim>\<open>POST\<close> to \<^verbatim>\<open>/webhook\<close>, and what is
  said about its signature, its event type and its payload is said through the result
  of \<^verbatim>\<open>hook.Parse\<close>, which is where the program learns it. The library checks the
  event type first and the signature after it: it returns \<^verbatim>\<open>nil\<close> with
  \<open>ErrEventNotFound\<close> for an event type that is not the one asked for (here
  \<^verbatim>\<open>watch\<close>), \<^verbatim>\<open>nil\<close> with \<open>ErrMissingHubSignatureHeader\<close> or
  \<open>ErrHMACVerificationFailed\<close> for a missing or wrong signature, and the decoded
  \<^verbatim>\<open>WatchPayload\<close> with no error for a signed, well-formed watch event. The result
  does not depend on the context \<^verbatim>\<open>tracing\<close> attaches to the request, hence the
  quantifier over the context in the hypotheses.
\<close>





text \<open>
  C2, as the code has it. For every \<^verbatim>\<open>POST /webhook\<close> request that
  \<^verbatim>\<open>hook.Parse\<close> rejects for its signature (a wrong signature,
  \<open>ErrHMACVerificationFailed\<close>, or none, \<open>ErrMissingHubSignatureHeader\<close>), the
  response has status 200 and the acknowledgment text as its body, no chat message is
  sent, and no entry at error level is logged: the handler logs an error for
  \<open>ErrEventNotFound\<close> only.
\<close>

theorem signature_failure_not_logged:
  assumes "Method r = ''POST''" and "URL_Path r = ''/webhook''"
    and "\<forall>c. hook_Parse E (cfg_secret cfg) (r\<lparr>Context_requestID := c\<rparr>) = (NilPayload, Some e)"
    and "e = ErrHMACVerificationFailed \<or> e = ErrMissingHubSignatureHeader"
  shows "response_status (ServeHTTP cfg E r) = 200 \<and>
         ResponseBody (ServeHTTP cfg E r) = ''Event received. Have a nice day'' \<and>
         Sent (ServeHTTP cfg E r) = [] \<and>
         error_entries (Log (ServeHTTP cfg E r)) = []"
proof -
  have "response_status (ServeHTTP cfg E r) = 200"
    using ServeHTTP_webhook_Status [OF assms(1,2)] by (rule response_status_Some)
  moreover have "ResponseBody (ServeHTTP cfg E r) = ''Event received. Have a nice day''"
    using ServeHTTP_webhook_Body [OF assms(1,2,3)] by simp
  moreover have "Sent (ServeHTTP cfg E r) = []"
    using ServeHTTP_webhook_Sent [OF assms(1,2,3)] by simp
  moreover have "e \<noteq> ErrEventNotFound"
    using assms(4) by auto
  then have "error_entries (Log (ServeHTTP cfg E r)) = []"
    using ServeHTTP_webhook_errors [OF assms(1,2,3)] by simp
  ultimately show ?thesis by simp
qed

text \<open>
  The theorem at a watch event whose signature does not verify.
\<close>

theorem signature_failure_not_logged_witness:
  "response_status (ServeHTTP example_config
       (example_externals (NilPayload, Some ErrHMACVerificationFailed) None)
       (example_request ''watch'')) = 200 \<and>
   ResponseBody (ServeHTTP example_config
       (example_externals (NilPayload, Some ErrHMACVerificationFailed) None)
       (example_request ''watch'')) = ''Event received. Have a nice day'' \<and>
   Sent (ServeHTTP example_config
       (example_externals (NilPayload, Some ErrHMACVerificationFailed) None)
       (example_request ''watch'')) = [] \<and>
   error_entries (Log (ServeHTTP example_config
       (example_externals (NilPayload, Some ErrHMACVerificationFailed) None)
       (example_request ''watch''))) = []"
proof -
  have h1: "Method (example_request ''watch'') = ''POST''"
    and h2: "URL_Path (example_request ''watch'') = ''/webhook''"
    by (simp_all add: example_request_simps)
  have h3: "\<forall>c. hook_Parse (example_externals (NilPayload, Some ErrHMACVerificationFailed) None)
      (cfg_secret example_config) ((example_request ''watch'')\<lparr>Context_requestID := c\<rparr>) =
      (NilPayload, Some ErrHMACVerificationFailed)"
    by (simp add: example_request_simps)
  have h4: "ErrHMACVerificationFailed = ErrHMACVerificationFailed \<or>
      ErrHMACVerificationFailed = ErrMissingHubSignatureHeader"
    by simp
  from signature_failure_not_logged [OF h1 h2 h3 h4] show ?thesis .
qed

text \<open>
  The claim as the specification states it asks for exactly one entry at error level.
  At the same request there is none.
\<close>

theorem signature_failure_counterexample:
  "Method (example_request ''watch'') = ''POST'' \<and>
   URL_Path (example_request ''watch'') = ''/webhook'' \<and>
   hook_Parse (example_externals (NilPayload, Some ErrHMACVerificationFailed) None)
     (cfg_secret example_config) (example_request ''watch'') =
     (NilPayload, Some ErrHMACVerificationFailed) \<and>
   length (error_entries (Log (ServeHTTP example_config
     (example_externals (NilPayload, Some ErrHMACVerificationFailed) None)
     (example_request ''watch'')))) \<noteq> 1"
proof -
  have "error_entries (Log (ServeHTTP example_config
     (example_externals (NilPayload, Some ErrHMACVerificationFailed) None)
     (example_request ''watch''))) = []"
    using ServeHTTP_webhook_errors [of "example_request ''watch''"
        "example_externals (NilPayload, Some ErrHMACVerificationFailed) None" example_config
        NilPayload "Some ErrHMACVerificationFailed"]
    by (simp add: example_request_simps)
  then show ?thesis by (simp add: example_request_simps)
qed

text \<open>
  C3, as the code has it. For every \<^verbatim>\<open>POST /webhook\<close> request whose event type
  is not the one the handler asks \<^verbatim>\<open>hook.Parse\<close> for (the library answers
  \<open>ErrEventNotFound\<close>, as for \<^verbatim>\<open>push\<close>), the response has status 200 and the
  acknowledgment text as its body, no chat message is sent, and exactly one entry at
  error level is logged, which carries the value of the header
  \<^verbatim>\<open>X-GitHub-Event\<close> in its field \<^verbatim>\<open>event\<close>.
\<close>

theorem unknown_event_logged:
  assumes "Method r = ''POST''" and "URL_Path r = ''/webhook''"
    and "\<forall>c. hook_Parse E (cfg_secret cfg) (r\<lparr>Context_requestID := c\<rparr>) =
           (NilPayload, Some ErrEventNotFound)"
  shows "response_status (ServeHTTP cfg E r) = 200 \<and>
         ResponseBody (ServeHTTP cfg E r) = ''Event received. Have a nice day'' \<and>
         Sent (ServeHTTP cfg E r) = [] \<and>
         error_entries (Log (ServeHTTP cfg E r)) =
           [\<lparr>entry_Level = ErrorLevel,
             entry_Data = [''event'' \<mapsto> FString (Header_Get (Header r) ''X-GitHub-Event'')],
             entry_Message = MsgErr [] ErrEventNotFound\<rparr>]"
proof -
  have "response_status (ServeHTTP cfg E r) = 200"
    using ServeHTTP_webhook_Status [OF assms(1,2)] by (rule response_status_Some)
  moreover have "ResponseBody (ServeHTTP cfg E r) = ''Event received. Have a nice day''"
    using ServeHTTP_webhook_Body [OF assms] by simp
  moreover have "Sent (ServeHTTP cfg E r) = []"
    using ServeHTTP_webhook_Sent [OF assms] by simp
  moreover have "error_entries (Log (ServeHTTP cfg E r)) =
           [\<lparr>entry_Level = ErrorLevel,
             entry_Data = [''event'' \<mapsto> FString (Header_Get (Header r) ''X-GitHub-Event'')],
             entry_Message = MsgErr [] ErrEventNotFound\<rparr>]"
    using ServeHTTP_webhook_errors [OF assms] by simp
  ultimately show ?thesis by simp
qed

text \<open>
  The theorem at a \<^verbatim>\<open>push\<close> event.
\<close>

theorem unknown_event_logged_witness:
  "response_status (ServeHTTP example_config
       (example_externals (NilPayload, Some ErrEventNotFound) None)
       (example_request ''push'')) = 200 \<and>
   ResponseBody (ServeHTTP example_config
       (example_externals (NilPayload, Some ErrEventNotFound) None)
       (example_request ''push'')) = ''Event received. Have a nice day'' \<and>
   Sent (ServeHTTP example_config
       (example_externals (NilPayload, Some ErrEventNotFound) None)
       (example_request ''push'')) = [] \<and>
   error_entries (Log (ServeHTTP example_config
       (example_externals (NilPayload, Some ErrEventNotFound) None)
       (example_request ''push''))) =
     [\<lparr>entry_Level = ErrorLevel, entry_Data = [''event'' \<mapsto> FString ''push''],
       entry_Message = MsgErr [] ErrEventNotFound\<rparr>]"
proof -
  have h1: "Method (example_request ''push'') = ''POST''"
    and h2: "URL_Path (example_request ''push'') = ''/webhook''"
    by (simp_all add: example_request_simps)
  have h3: "\<forall>c. hook_Parse (example_externals (NilPayload, Some ErrEventNotFound) None)
      (cfg_secret example_config) ((example_request ''push'')\<lparr>Context_requestID := c\<rparr>) =
      (NilPayload, Some ErrEventNotFound)"
    by (simp add: example_request_simps)
  from unknown_event_logged [OF h1 h2 h3] show ?thesis
    by (simp add: example_request_simps)
qed

text \<open>
  The claim as the specification states it asks for no entry at error level. At the
  \<^verbatim>\<open>push\<close> event there is one.
\<close>

theorem unknown_event_counterexample:
  "Method (example_request ''push'') = ''POST'' \<and>
   URL_Path (example_request ''push'') = ''/webhook'' \<and>
   hook_Parse (example_externals (NilPayload, Some ErrEventNotFound) None)
     (cfg_secret example_config) (example_request ''push'') =
     (NilPayload, Some ErrEventNotFound) \<and>
   length (error_entries (Log (ServeHTTP example_config
     (example_externals (NilPayload, Some ErrEventNotFound) None)
     (example_request ''push'')))) = 1"
proof -
  have "length (error_entries (Log (ServeHTTP example_config
     (example_externals (NilPayload, Some ErrEventNotFound) None)
     (example_request ''push'')))) = 1"
    using ServeHTTP_webhook_errors [of "example_request ''push''"
        "example_externals (NilPayload, Some ErrEventNotFound) None" example_config
        NilPayload "Some ErrEventNotFound"]
    by (simp add: example_request_simps)
  then show ?thesis by (simp add: example_request_simps)
qed



text \<open>
  C10. For every \<^verbatim>\<open>POST /webhook\<close> request the response body ends with the
  acknowledgment text \<open>Event received. Have a nice day\<close>, also when a notification
  was sent and \<open>OK\<close> was written before it.
\<close>

theorem webhook_body_ends_with_acknowledgment:
  assumes "Method r = ''POST''" and "URL_Path r = ''/webhook''"
  shows "\<exists>written. ResponseBody (ServeHTTP cfg E r) = written @ ''Event received. Have a nice day''"
  using assms
  by (simp add: tracing_ServeHTTP logging_simps router_webhook webhook_handler_Body new_state_def)

text \<open>
  The theorem at the watch event of the specification's example.
\<close>

theorem webhook_body_ends_with_acknowledgment_witness:
  "\<exists>written. ResponseBody (ServeHTTP example_config
     (example_externals (Watch example_watch, None) None) (example_request ''watch'')) =
     written @ ''Event received. Have a nice day''"
proof -
  have h1: "Method (example_request ''watch'') = ''POST''"
    and h2: "URL_Path (example_request ''watch'') = ''/webhook''"
    by (simp_all add: example_request_simps)
  from webhook_body_ends_with_acknowledgment [OF h1 h2] show ?thesis .
qed


section \<open>The middlewares\<close>

text \<open>
  C5. For every request without the header \<^verbatim>\<open>X-Request-Id\<close>, or with an empty
  one, the response carries the header with a newly made, non-empty value (the clock's
  nanoseconds in decimal); for every request with a non-empty one, the response
  carries the same value. In both cases this value is the one stored in the request's
  context for the handlers that follow, which the access log shows in its field
  \<^verbatim>\<open>requestID\<close>.
\<close>

theorem request_id_generated_or_echoed:
  "(Header_Get (Header r) ''X-Request-Id'' = [] \<longrightarrow>
      FormatInt (time_Now_UnixNano E) \<noteq> [] \<and>
      ResponseHeader (ServeHTTP cfg E r) ''X-Request-Id'' = Some [FormatInt (time_Now_UnixNano E)] \<and>
      entry_Data (last (Log (ServeHTTP cfg E r))) ''requestID'' =
        Some (FString (FormatInt (time_Now_UnixNano E)))) \<and>
   (Header_Get (Header r) ''X-Request-Id'' \<noteq> [] \<longrightarrow>
      ResponseHeader (ServeHTTP cfg E r) ''X-Request-Id'' = Some [Header_Get (Header r) ''X-Request-Id''] \<and>
      entry_Data (last (Log (ServeHTTP cfg E r))) ''requestID'' =
        Some (FString (Header_Get (Header r) ''X-Request-Id'')))"
  by (simp add: tracing_ServeHTTP logging_simps logging_last router_Header new_state_def
      Header_Set_def FormatInt_nonempty)

text \<open>
  The theorem at a request without the header and at one with the header
  \<open>req-7\<close>.
\<close>

theorem request_id_generated_or_echoed_witness:
  "Header_Get (Header (example_request ''watch'')) ''X-Request-Id'' = [] \<and>
   FormatInt (time_Now_UnixNano (example_externals (NilPayload, None) None)) \<noteq> [] \<and>
   ResponseHeader (ServeHTTP example_config (example_externals (NilPayload, None) None)
       (example_request ''watch'')) ''X-Request-Id'' =
     Some [FormatInt (time_Now_UnixNano (example_externals (NilPayload, None) None))] \<and>
   entry_Data (last (Log (ServeHTTP example_config (example_externals (NilPayload, None) None)
       (example_request ''watch'')))) ''requestID'' =
     Some (FString (FormatInt (time_Now_UnixNano (example_externals (NilPayload, None) None)))) \<and>
   Header_Get (Header ((example_request ''watch'')\<lparr>Header := [''X-Request-Id'' \<mapsto> [''req-7'']]\<rparr>))
       ''X-Request-Id'' = ''req-7'' \<and>
   ResponseHeader (ServeHTTP example_config (example_externals (NilPayload, None) None)
       ((example_request ''watch'')\<lparr>Header := [''X-Request-Id'' \<mapsto> [''req-7'']]\<rparr>))
       ''X-Request-Id'' = Some [''req-7''] \<and>
   entry_Data (last (Log (ServeHTTP example_config (example_externals (NilPayload, None) None)
       ((example_request ''watch'')\<lparr>Header := [''X-Request-Id'' \<mapsto> [''req-7'']]\<rparr>))))
       ''requestID'' = Some (FString ''req-7'')"
proof -
  have e1: "Header_Get (Header (example_request ''watch'')) ''X-Request-Id'' = []"
    by (simp add: example_request_def Header_Get_def)
  have e2: "Header_Get (Header ((example_request ''watch'')\<lparr>Header := [''X-Request-Id'' \<mapsto> [''req-7'']]\<rparr>))
       ''X-Request-Id'' = ''req-7''"
    by (simp add: Header_Get_def)
  from request_id_generated_or_echoed [of "example_request ''watch''"
      "example_externals (NilPayload, None) None" example_config] e1
  have a: "FormatInt (time_Now_UnixNano (example_externals (NilPayload, None) None)) \<noteq> [] \<and>
   ResponseHeader (ServeHTTP example_config (example_externals (NilPayload, None) None)
       (example_request ''watch'')) ''X-Request-Id'' =
     Some [FormatInt (time_Now_UnixNano (example_externals (NilPayload, None) None))] \<and>
   entry_Data (last (Log (ServeHTTP example_config (example_externals (NilPayload, None) None)
       (example_request ''watch'')))) ''requestID'' =
     Some (FString (FormatInt (time_Now_UnixNano (example_externals (NilPayload, None) None))))"
    by blast
  from request_id_generated_or_echoed [of
      "(example_request ''watch'')\<lparr>Header := [''X-Request-Id'' \<mapsto> [''req-7'']]\<rparr>"
      "example_externals (NilPayload, None) None" example_config] e2
  have b: "ResponseHeader (ServeHTTP example_config (example_externals (NilPayload, None) None)
       ((example_request ''watch'')\<lparr>Header := [''X-Request-Id'' \<mapsto> [''req-7'']]\<rparr>))
       ''X-Request-Id'' = Some [''req-7''] \<and>
   entry_Data (last (Log (ServeHTTP example_config (example_externals (NilPayload, None) None)
       ((example_request ''watch'')\<lparr>Header := [''X-Request-Id'' \<mapsto> [''req-7'']]\<rparr>))))
       ''requestID'' = Some (FString ''req-7'')"
    by simp
  from e1 e2 a b show ?thesis by blast
qed

text \<open>
  C8. For every request, the client address in the access log is the value of
  \<^verbatim>\<open>X-Real-Ip\<close> when it is not empty, else the value of \<^verbatim>\<open>X-Forwarded-For\<close>
  when it is not empty, else the remote address of the connection.
\<close>

theorem client_address_precedence:
  "entry_Data (last (Log (ServeHTTP cfg E r))) ''clientIP'' =
     Some (FString (if Header_Get (Header r) ''X-Real-Ip'' \<noteq> [] then Header_Get (Header r) ''X-Real-Ip''
                    else if Header_Get (Header r) ''X-Forwarded-For'' \<noteq> []
                         then Header_Get (Header r) ''X-Forwarded-For''
                         else RemoteAddr r))"
  by (simp add: tracing_ServeHTTP logging_last)

text \<open>
  C6, as the code has it. For every request whose handlers take at least one
  millisecond and less than two, the latency in the access log is the ceiling of the
  elapsed nanoseconds over one million: 1 when the time is exactly one millisecond, and
  2 when it is longer. It is never 0.
\<close>

theorem latency_logged_1ms_2ms:
  assumes "1000000 \<le> sint (time_Since E)" and "sint (time_Since E) < 2000000"
  shows "entry_Data (last (Log (ServeHTTP cfg E r))) ''latency'' =
           Some (FInt (if sint (time_Since E) = 1000000 then 1 else 2))"
  using latency_1ms_2ms [OF assms] by (simp add: tracing_ServeHTTP logging_last)

text \<open>
  The theorem at exactly one millisecond and at one nanosecond less than two.
\<close>

theorem latency_logged_1ms_2ms_witness:
  "entry_Data (last (Log (ServeHTTP example_config
      ((example_externals (NilPayload, None) None)\<lparr>time_Since := 1000000\<rparr>)
      (example_request ''watch'')))) ''latency'' = Some (FInt 1) \<and>
   entry_Data (last (Log (ServeHTTP example_config
      ((example_externals (NilPayload, None) None)\<lparr>time_Since := 1999999\<rparr>)
      (example_request ''watch'')))) ''latency'' = Some (FInt 2)"
proof -
  have a: "1000000 \<le> sint (time_Since ((example_externals (NilPayload, None) None)\<lparr>time_Since := 1000000\<rparr>))"
      "sint (time_Since ((example_externals (NilPayload, None) None)\<lparr>time_Since := 1000000\<rparr>)) < 2000000"
    by simp_all
  have b: "1000000 \<le> sint (time_Since ((example_externals (NilPayload, None) None)\<lparr>time_Since := 1999999\<rparr>))"
      "sint (time_Since ((example_externals (NilPayload, None) None)\<lparr>time_Since := 1999999\<rparr>)) < 2000000"
    by simp_all
  show ?thesis
    using latency_logged_1ms_2ms [OF a, of example_config "example_request ''watch''"]
      latency_logged_1ms_2ms [OF b, of example_config "example_request ''watch''"]
    by simp
qed

text \<open>
  The claim as the specification states it asks for the latency 1 on the whole range.
  At one millisecond and a half the logged latency is 2.
\<close>

theorem latency_counterexample:
  "1000000 \<le> sint (time_Since (example_externals (NilPayload, None) None)) \<and>
   sint (time_Since (example_externals (NilPayload, None) None)) < 2000000 \<and>
   entry_Data (last (Log (ServeHTTP example_config (example_externals (NilPayload, None) None)
      (example_request ''watch'')))) ''latency'' = Some (FInt 2)"
proof -
  have t: "time_Since (example_externals (NilPayload, None) None) = 1500000"
    by (simp add: example_externals_def)
  show ?thesis
    by (simp add: tracing_ServeHTTP logging_last t latency_1500000)
qed

section \<open>The start of the process\<close>

text \<open>
  C9. When \<^verbatim>\<open>GITHUB_SECRET\<close> is empty, \<^verbatim>\<open>main\<close> logs the fatal message and the
  process exits with code 1, before any server is set up. When it is not empty, that
  message is not logged and \<^verbatim>\<open>main\<close> goes on: what happens then is decided by the
  creation of the Telegram client and by the server.
\<close>

theorem secret_required:
  "(os_Getenv P ''GITHUB_SECRET'' = [] \<longrightarrow>
      snd (main Version P) = Exit 1 \<and>
      last (fst (main Version P)) = mk_entry FatalLevel (Msg ''Github webhook secret not set'')) \<and>
   (os_Getenv P ''GITHUB_SECRET'' \<noteq> [] \<longrightarrow>
      mk_entry FatalLevel (Msg ''Github webhook secret not set'') \<notin> set (fst (main Version P)) \<and>
      snd (main Version P) =
        (case NewBotAPI P (os_Getenv P ''TELEGRAM_TOKEN'') of
           Some err \<Rightarrow> Panic
         | None \<Rightarrow>
             (case ListenAndServe P (flag_listen P @ '':'' @ flag_port P) of
                Some errServe \<Rightarrow> Exit 1
              | None \<Rightarrow> Serving \<lparr>cfg_Version = Version,
                                   cfg_secret = os_Getenv P ''GITHUB_SECRET'',
                                   cfg_telegramChatID = ParseInt (os_Getenv P ''TELEGRAM_CHAT''),
                                   cfg_Addr = flag_listen P @ '':'' @ flag_port P\<rparr>)))"
  using main_outcome [of P Version] main_secret_not_fatal [of P Version] main_no_secret [of P Version]
  by simp

text \<open>
  The theorem at a process without the secret and at one with it.
\<close>

theorem secret_required_witness:
  "snd (main ''dev'' (example_process [] ''123:abc'' ''1001'')) = Exit 1 \<and>
   last (fst (main ''dev'' (example_process [] ''123:abc'' ''1001''))) =
     mk_entry FatalLevel (Msg ''Github webhook secret not set'') \<and>
   mk_entry FatalLevel (Msg ''Github webhook secret not set'') \<notin>
     set (fst (main ''dev'' (example_process ''s3cret'' ''123:abc'' ''1001''))) \<and>
   snd (main ''dev'' (example_process ''s3cret'' ''123:abc'' ''1001'')) =
     Serving \<lparr>cfg_Version = ''dev'', cfg_secret = ''s3cret'',
              cfg_telegramChatID = 1001, cfg_Addr = ''0.0.0.0:8080''\<rparr>"
proof -
  have e1: "os_Getenv (example_process [] ''123:abc'' ''1001'') ''GITHUB_SECRET'' = []"
    by (simp add: example_process_def)
  have e2: "os_Getenv (example_process ''s3cret'' ''123:abc'' ''1001'') ''GITHUB_SECRET'' \<noteq> []"
    by (simp add: example_process_def)
  have p: "ParseInt ''1001'' = 1001" by (simp add: ParseInt_def)
  from secret_required [of "example_process [] ''123:abc'' ''1001''" "''dev''"] e1
  have a: "snd (main ''dev'' (example_process [] ''123:abc'' ''1001'')) = Exit 1 \<and>
      last (fst (main ''dev'' (example_process [] ''123:abc'' ''1001''))) =
        mk_entry FatalLevel (Msg ''Github webhook secret not set'')"
    by blast
  from secret_required [of "example_process ''s3cret'' ''123:abc'' ''1001''" "''dev''"] e2
  have b: "mk_entry FatalLevel (Msg ''Github webhook secret not set'') \<notin>
       set (fst (main ''dev'' (example_process ''s3cret'' ''123:abc'' ''1001''))) \<and>
     snd (main ''dev'' (example_process ''s3cret'' ''123:abc'' ''1001'')) =
     Serving \<lparr>cfg_Version = ''dev'', cfg_secret = ''s3cret'',
              cfg_telegramChatID = 1001, cfg_Addr = ''0.0.0.0:8080''\<rparr>"
    by (simp add: example_process_def p)
  from a b show ?thesis by blast
qed

text \<open>
  C4, as the code has it. With the secret set, when \<^verbatim>\<open>TELEGRAM_TOKEN\<close> or
  \<^verbatim>\<open>TELEGRAM_CHAT\<close> is empty the absence is logged at error level and is not fatal
  by itself: \<^verbatim>\<open>main\<close> goes on to create the Telegram client with the token. The
  process panics exactly when that creation fails; when it succeeds, \<^verbatim>\<open>main\<close>
  reaches the server.
\<close>

theorem telegram_config_missing:
  assumes "os_Getenv P ''GITHUB_SECRET'' \<noteq> []"
    and "os_Getenv P ''TELEGRAM_TOKEN'' = [] \<or> os_Getenv P ''TELEGRAM_CHAT'' = []"
  shows "(os_Getenv P ''TELEGRAM_TOKEN'' = [] \<longrightarrow>
            mk_entry ErrorLevel (Msg ''Telegram token not set'') \<in> set (fst (main Version P))) \<and>
         (os_Getenv P ''TELEGRAM_CHAT'' = [] \<longrightarrow>
            mk_entry ErrorLevel (Msg ''Telegram Chat ID not set'') \<in> set (fst (main Version P))) \<and>
         (snd (main Version P) = Panic \<longleftrightarrow> NewBotAPI P (os_Getenv P ''TELEGRAM_TOKEN'') \<noteq> None) \<and>
         (NewBotAPI P (os_Getenv P ''TELEGRAM_TOKEN'') = None \<longrightarrow>
            snd (main Version P) =
              (case ListenAndServe P (flag_listen P @ '':'' @ flag_port P) of
                 Some errServe \<Rightarrow> Exit 1
               | None \<Rightarrow> Serving \<lparr>cfg_Version = Version,
                                    cfg_secret = os_Getenv P ''GITHUB_SECRET'',
                                    cfg_telegramChatID = ParseInt (os_Getenv P ''TELEGRAM_CHAT''),
                                    cfg_Addr = flag_listen P @ '':'' @ flag_port P\<rparr>))"
  using main_outcome [OF assms(1), of Version] main_log_token [OF assms(1), of Version]
    main_log_chat [OF assms(1), of Version]
  by (auto split: option.splits)

text \<open>
  The theorem at a process without the chat id, which serves with the chat id 0, and
  at one without the token, which panics.
\<close>

theorem telegram_config_missing_witness:
  "mk_entry ErrorLevel (Msg ''Telegram Chat ID not set'') \<in>
     set (fst (main ''dev'' (example_process ''s3cret'' ''123:abc'' []))) \<and>
   snd (main ''dev'' (example_process ''s3cret'' ''123:abc'' [])) =
     Serving \<lparr>cfg_Version = ''dev'', cfg_secret = ''s3cret'', cfg_telegramChatID = 0,
              cfg_Addr = ''0.0.0.0:8080''\<rparr> \<and>
   mk_entry ErrorLevel (Msg ''Telegram token not set'') \<in>
     set (fst (main ''dev'' (example_process ''s3cret'' [] ''1001''))) \<and>
   snd (main ''dev'' (example_process ''s3cret'' [] ''1001'')) = Panic"
proof -
  have s: "os_Getenv (example_process ''s3cret'' token chat) ''GITHUB_SECRET'' \<noteq> []" for token chat
    by (simp add: example_process_def)
  have c: "os_Getenv (example_process ''s3cret'' ''123:abc'' []) ''TELEGRAM_TOKEN'' = [] \<or>
      os_Getenv (example_process ''s3cret'' ''123:abc'' []) ''TELEGRAM_CHAT'' = []"
    by (simp add: example_process_def)
  have t: "os_Getenv (example_process ''s3cret'' [] ''1001'') ''TELEGRAM_TOKEN'' = [] \<or>
      os_Getenv (example_process ''s3cret'' [] ''1001'') ''TELEGRAM_CHAT'' = []"
    by (simp add: example_process_def)
  have p: "ParseInt [] = 0" by (simp add: ParseInt_def)
  from telegram_config_missing [OF s c, of "''dev''"]
  have a: "mk_entry ErrorLevel (Msg ''Telegram Chat ID not set'') \<in>
     set (fst (main ''dev'' (example_process ''s3cret'' ''123:abc'' []))) \<and>
   snd (main ''dev'' (example_process ''s3cret'' ''123:abc'' [])) =
     Serving \<lparr>cfg_Version = ''dev'', cfg_secret = ''s3cret'', cfg_telegramChatID = 0,
              cfg_Addr = ''0.0.0.0:8080''\<rparr>"
    by (simp add: example_process_def p)
  from telegram_config_missing [OF s t, of "''dev''"]
  have b: "mk_entry ErrorLevel (Msg ''Telegram token not set'') \<in>
     set (fst (main ''dev'' (example_process ''s3cret'' [] ''1001''))) \<and>
   snd (main ''dev'' (example_process ''s3cret'' [] ''1001'')) = Panic"
    by (simp add: example_process_def)
  from a b show ?thesis by blast
qed

text \<open>
  The claim as the specification states it says the process does not panic when the
  token is missing. Telegram rejects the empty token, \<^verbatim>\<open>NewBotAPI\<close> returns an
  error and \<^verbatim>\<open>main\<close> panics.
\<close>

theorem telegram_token_missing_counterexample:
  "os_Getenv (example_process ''s3cret'' [] ''1001'') ''GITHUB_SECRET'' = ''s3cret'' \<and>
   os_Getenv (example_process ''s3cret'' [] ''1001'') ''TELEGRAM_TOKEN'' = [] \<and>
   NewBotAPI (example_process ''s3cret'' [] ''1001'') [] = Some (OtherError ''Not Found'') \<and>
   snd (main ''dev'' (example_process ''s3cret'' [] ''1001'')) = Panic"
  by (simp add: main_def getenv_def Let_def example_process_def)

end
